theory Spec2Isabelle
  imports Main "HOL-Library.Word" "HOL-Library.AList"
begin

unbundle bit_operations_syntax

section \<open>Common values\<close>

text \<open>
  Connections are objects compared by identity (they are the keys of a JavaScript
  \<open>Map\<close>); a connection is represented by its identity.  Text built by string
  concatenation in the source is kept as the list of the concatenated parts, so that the
  model does not depend on how numbers and connections are printed.
\<close>

type_synonym ClientConnection = nat

datatype part = Str string | Num int | ConnectionToString ClientConnection
  | RemoteAddressToString ClientConnection

type_synonym message_text = "part list"

text \<open>
  The error classes the sources name.  \<open>HazelcastError\<close> carries its cause;
  \<open>OtherError\<close> stands for an error of any class the sources do not name.
\<close>

datatype error =
    ClientNotActiveError message_text
  | IOError message_text
  | TargetDisconnectedError message_text
  | HazelcastError message_text "error option"
  | UnsupportedOperationError message_text
  | RangeError message_text
  | TypeError message_text
  | OtherError message_text

section \<open>BaseCPProxy\<close>

record BaseCPProxy =
  proxyName :: string
  serviceName :: string

definition getPartitionKey :: "BaseCPProxy \<Rightarrow> error + string" where
  "getPartitionKey this =
     Inl (UnsupportedOperationError [Str ''This operation is not supported by CP Subsystem''])"

definition getName :: "BaseCPProxy \<Rightarrow> string" where
  "getName this = proxyName this"

definition getServiceName :: "BaseCPProxy \<Rightarrow> string" where
  "getServiceName this = serviceName this"

section \<open>RingbufferProxy.readMany\<close>






section \<open>ClientMessage and the codecs used by AtomicLongAlterCodec\<close>

type_synonym byte = "8 word"

text \<open>
  Modelled from the spec: \<open>Frame\<close> and \<open>ClientMessage\<close> (protocol/ClientMessage is not
  among the sources).  A frame has the header fields correlation id, message type,
  partition id, flags and backup-ack count, and its bytes; the header fields are kept as
  fields of their own, the bytes of the frame as \<open>content\<close>.  A message is the ordered
  sequence of its frames and carries the retryable flag.
\<close>

record Frame =
  header_correlationId :: "64 word"
  header_messageType :: "32 word"
  header_partitionId :: "32 word"
  header_flags :: "16 word"
  header_backupAcks :: "8 word"
  content :: "byte list"

record ClientMessage =
  retryable :: bool
  frames :: "Frame list"

text \<open>
  Modelled from the spec: \<open>createForEncode\<close> produces an empty message ready to accept
  frames; \<open>addFrame\<close> appends, preserving order; \<open>setRetryable\<close> sets the flag of the
  message; \<open>setMessageType\<close> and \<open>setPartitionId\<close> mutate the header of the initial
  frame in place, which fails on a message that has no frame yet; the getters read the
  same places.
\<close>

definition createForEncode :: "ClientMessage" where
  "createForEncode = \<lparr>retryable = False, frames = []\<rparr>"



definition addFrame :: "Frame \<Rightarrow> ClientMessage \<Rightarrow> ClientMessage" where
  "addFrame f m = m\<lparr>frames := frames m @ [f]\<rparr>"

definition noStartFrame :: error where
  "noStartFrame = TypeError [Str ''Cannot read property content of undefined'']"





definition getCorrelationId :: "ClientMessage \<Rightarrow> error + 64 word" where
  "getCorrelationId m =
     (case frames m of [] \<Rightarrow> Inl noStartFrame | f # fs \<Rightarrow> Inr (header_correlationId f))"

text \<open>
  Modelled from the spec: \<open>Frame.createInitialFrame\<close> makes a frame of the given size;
  the header fields and the bytes start at zero.
\<close>

definition createInitialFrame :: "nat \<Rightarrow> Frame" where
  "createInitialFrame size' =
     \<lparr>header_correlationId = 0, header_messageType = 0, header_partitionId = 0,
      header_flags = 0, header_backupAcks = 0, content = replicate size' 0\<rparr>"



definition int64_bytes :: "64 word \<Rightarrow> byte list" where
  "int64_bytes v = map (\<lambda>i. ucast (drop_bit (8 * i) v)) [0 ..< 8]"

definition writeBytes :: "byte list \<Rightarrow> nat \<Rightarrow> byte list \<Rightarrow> error + byte list" where
  "writeBytes buffer offset bytes =
     (if offset + length bytes \<le> length buffer then
        Inr (take offset buffer @ bytes @ drop (offset + length bytes) buffer)
      else Inl (RangeError [Str ''The value of offset is out of range'']))"


definition encodeLong :: "byte list \<Rightarrow> nat \<Rightarrow> 64 word \<Rightarrow> error + byte list" where
  "encodeLong buffer offset v = writeBytes buffer offset (int64_bytes v)"






subsection \<open>AtomicLongAlterCodec\<close>






section \<open>ListenerService\<close>

subsection \<open>Collaborators\<close>

type_synonym userKey = string
type_synonym ClientMessageHandler = nat
type_synonym mapRef = nat

text \<open>
  \<open>ListenerMessageCodec\<close> is an interface: a codec is the record of its three methods.
  \<open>decodeAddResponse\<close> may throw; \<open>encodeRemoveRequest\<close> may return \<open>null\<close>
  (\<open>None\<close>), which the service checks for.
\<close>

record ListenerMessageCodec =
  encodeAddRequest :: "bool \<Rightarrow> ClientMessage"
  decodeAddResponse :: "ClientMessage \<Rightarrow> error + string"
  encodeRemoveRequest :: "string \<Rightarrow> ClientMessage option"

record ClientEventRegistration =
  serverRegistrationId :: string
  correlationId :: "64 word"
  subscriber :: ClientConnection
  codec :: ListenerMessageCodec

record RegistrationKey =
  getUserKey :: userKey
  getCodec :: ListenerMessageCodec
  getRegisterRequest :: ClientMessage
  getHandler :: ClientMessageHandler

text \<open>
  Modelled from the spec: \<open>copyWithNewCorrelationId\<close> (protocol/ClientMessage is not
  among the sources) copies the template request; the fresh correlation id is set by the
  invoke call, so the copy is the request itself.
\<close>

definition copyWithNewCorrelationId :: "ClientMessage \<Rightarrow> ClientMessage" where
  "copyWithNewCorrelationId m = m"

text \<open>
  An \<open>Invocation\<close> as the service builds it: the request, the event handler, the
  connection it is bound to and the third argument of the constructor.
\<close>

record Invocation =
  invocation_request :: ClientMessage
  invocation_handler :: "ClientMessageHandler option"
  invocation_connection :: ClientConnection
  invocation_timeoutMillis :: "int option"

definition MAX_SAFE_INTEGER :: int where
  "MAX_SAFE_INTEGER = 9007199254740991"

text \<open>
  A promise is pending, resolved or rejected; settling a promise that is already settled
  changes nothing.
\<close>

datatype 'a promise = Pending | Resolved 'a | Rejected error

definition resolve :: "'a \<Rightarrow> 'a promise \<Rightarrow> 'a promise" where
  "resolve v p = (case p of Pending \<Rightarrow> Resolved v | Resolved w \<Rightarrow> p | Rejected e \<Rightarrow> p)"

definition reject :: "error \<Rightarrow> 'a promise \<Rightarrow> 'a promise" where
  "reject e p = (case p of Pending \<Rightarrow> Rejected e | Resolved w \<Rightarrow> p | Rejected e' \<Rightarrow> p)"

subsection \<open>State\<close>

text \<open>
  Everything the service does to its surroundings, and every change of its tracking
  tables, is recorded in program order: the calls of the Invocation Service
  (\<open>invokeUrgent\<close>, \<open>invoke\<close>, \<open>removeEventHandler\<close>), the calls of the logger, and the
  \<open>set\<close> and \<open>delete\<close> calls on the three kinds of \<open>Map\<close>.
\<close>

datatype effect =
    InvokeUrgent Invocation
  | Invoke Invocation
  | RemoveEventHandler "64 word"
  | LoggerDebug message_text
  | LoggerWarn message_text
  | LoggerWarnError error
  | ActiveRegistrationsSet userKey
  | ActiveRegistrationsDelete userKey
  | UserKeyInformationSet userKey
  | UserKeyInformationDelete userKey
  | RegistrationsSet mapRef ClientConnection "64 word"
  | RegistrationsDelete mapRef ClientConnection

text \<open>
  The callbacks that wait to run.  A task is what a callback closes over.
  \<^item> \<open>RegisterInvocation userKey connectionsOnUserKey connection codec deferred\<close>: an
    \<open>invokeUrgent\<close> of \<open>registerListener\<close> with its \<open>then\<close>/\<open>then\<close>/\<open>catch\<close> chain;
  \<^item> \<open>RegisterResolve userKey deferred\<close>: the second \<open>then\<close> of that chain, due after
    the first one has stored the registration;
  \<^item> \<open>ReregisterInvocation userKey connection codec callbacks\<close>: the \<open>invokeUrgent\<close> of
    \<open>invokeRegistrationFromRecord\<close>; \<open>callbacks\<close> is the \<open>registrationMap\<close> captured by
    the \<open>then\<close>/\<open>catch\<close> that \<open>reregisterListenersOnConnection\<close> attaches to the
    returned promise, \<open>None\<close> while nothing is attached;
  \<^item> \<open>ReregisterStore userKey registrationMap connection eventRegistration\<close>: that
    \<open>then\<close>, due once the promise is resolved with \<open>eventRegistration\<close>;
  \<^item> \<open>DeregisterInvocation userKey connection\<close>: the \<open>invoke\<close> of
    \<open>deregisterListenerOnTarget\<close> with its \<open>catch\<close>.
\<close>

datatype task =
    RegisterInvocation userKey mapRef ClientConnection ListenerMessageCodec nat
  | RegisterResolve userKey nat
  | ReregisterInvocation userKey ClientConnection ListenerMessageCodec "mapRef option"
  | ReregisterStore userKey mapRef ClientConnection ClientEventRegistration
  | DeregisterInvocation userKey ClientConnection

text \<open>
  The service and the promises around it.  The outer \<open>Map\<close> of \<open>activeRegistrations\<close>
  holds references to the inner maps, which live in \<open>registrationMaps\<close>: callbacks keep
  an inner map after its key has been deleted from the outer one.  A \<open>Map\<close> is a list of
  entries in insertion order, as \<open>forEach\<close> visits them.
\<close>

record ListenerService =
  isSmartService :: bool
  activeRegistrations :: "(userKey \<times> mapRef) list"
  userKeyInformation :: "(userKey \<times> RegistrationKey) list"
  registrationMaps :: "mapRef \<Rightarrow> (ClientConnection \<times> ClientEventRegistration) list"
  nextMapRef :: mapRef
  deferreds :: "nat \<Rightarrow> userKey promise"
  nextDeferred :: nat
  tasks :: "(nat \<times> task) list"
  nextTask :: nat
  trace :: "effect list"

definition constructor :: "bool \<Rightarrow> ListenerService" where
  "constructor smartRouting =
     \<lparr>isSmartService = smartRouting, activeRegistrations = [], userKeyInformation = [],
      registrationMaps = (\<lambda>r. []), nextMapRef = 0,
      deferreds = (\<lambda>d. Pending), nextDeferred = 0,
      tasks = [], nextTask = 0, trace = []\<rparr>"

definition isSmart :: "ListenerService \<Rightarrow> bool" where
  "isSmart this = isSmartService this"

definition emit :: "effect \<Rightarrow> ListenerService \<Rightarrow> ListenerService" where
  "emit e this = this\<lparr>trace := trace this @ [e]\<rparr>"

definition addTask :: "task \<Rightarrow> ListenerService \<Rightarrow> ListenerService" where
  "addTask k this =
     this\<lparr>tasks := tasks this @ [(nextTask this, k)], nextTask := Suc (nextTask this)\<rparr>"

definition removeTask :: "nat \<Rightarrow> ListenerService \<Rightarrow> ListenerService" where
  "removeTask t this = this\<lparr>tasks := AList.delete t (tasks this)\<rparr>"

definition has :: "('k \<times> 'v) list \<Rightarrow> 'k \<Rightarrow> bool" where
  "has m k = (map_of m k \<noteq> None)"

definition registrationsSet ::
  "mapRef \<Rightarrow> ClientConnection \<Rightarrow> ClientEventRegistration \<Rightarrow> ListenerService \<Rightarrow> ListenerService" where
  "registrationsSet r c reg this =
     emit (RegistrationsSet r c (correlationId reg))
       (this\<lparr>registrationMaps :=
          (registrationMaps this)(r := AList.update c reg (registrationMaps this r))\<rparr>)"

definition registrationsDelete ::
  "mapRef \<Rightarrow> ClientConnection \<Rightarrow> ListenerService \<Rightarrow> ListenerService" where
  "registrationsDelete r c this =
     emit (RegistrationsDelete r c)
       (this\<lparr>registrationMaps :=
          (registrationMaps this)(r := AList.delete c (registrationMaps this r))\<rparr>)"

definition removeEventHandler :: "64 word \<Rightarrow> ListenerService \<Rightarrow> ListenerService" where
  "removeEventHandler cid this = emit (RemoveEventHandler cid) this"

subsection \<open>Operations\<close>

text \<open>
  \<open>deregisterListenerOnTarget\<close>.  The \<open>catch\<close> of the \<open>invoke\<close> is the task
  \<open>DeregisterInvocation\<close>; \<open>invocation.connection\<close> stays the subscriber.
\<close>

definition deregisterListenerOnTarget ::
  "userKey \<Rightarrow> ClientEventRegistration \<Rightarrow> ListenerService \<Rightarrow> ListenerService" where
  "deregisterListenerOnTarget userKey eventRegistration this =
     (case encodeRemoveRequest (codec eventRegistration) (serverRegistrationId eventRegistration) of
        None \<Rightarrow> this
      | Some clientMessage \<Rightarrow>
          (let invocation = \<lparr>invocation_request = clientMessage, invocation_handler = None,
                             invocation_connection = subscriber eventRegistration,
                             invocation_timeoutMillis = Some MAX_SAFE_INTEGER\<rparr>
           in addTask (DeregisterInvocation userKey (invocation_connection invocation))
                (emit (Invoke invocation) this)))"

text \<open>
  The \<open>forEach\<close> of \<open>deregisterListener\<close> over the entries of the inner map; each call
  deletes the entry it is visiting, so the entries visited are those of the map before
  the loop.
\<close>

fun deregisterEach ::
  "userKey \<Rightarrow> mapRef \<Rightarrow> (ClientConnection \<times> ClientEventRegistration) list \<Rightarrow>
   ListenerService \<Rightarrow> ListenerService" where
  "deregisterEach userKey registrationsOnUserKey [] this = this"
| "deregisterEach userKey registrationsOnUserKey ((connection, eventRegistration) # rest) this =
     deregisterEach userKey registrationsOnUserKey rest
       (deregisterListenerOnTarget userKey eventRegistration
          (removeEventHandler (correlationId eventRegistration)
             (registrationsDelete registrationsOnUserKey connection this)))"

text \<open>
  \<open>deregisterListener\<close> settles its promise before it returns: the result is the
  promise as returned, together with the service.
\<close>

definition deregisterListener ::
  "userKey \<Rightarrow> ListenerService \<Rightarrow> bool promise \<times> ListenerService" where
  "deregisterListener userKey this =
     (case map_of (activeRegistrations this) userKey of
        None \<Rightarrow> (Resolved False, this)
      | Some registrationsOnUserKey \<Rightarrow>
          (let this = emit (ActiveRegistrationsDelete userKey)
                        (this\<lparr>activeRegistrations :=
                                 AList.delete userKey (activeRegistrations this)\<rparr>);
               this = emit (UserKeyInformationDelete userKey)
                        (this\<lparr>userKeyInformation :=
                                 AList.delete userKey (userKeyInformation this)\<rparr>);
               this = deregisterEach userKey registrationsOnUserKey
                        (registrationMaps this registrationsOnUserKey) this
           in (Resolved True, this)))"

text \<open>
  \<open>invokeRegistrationFromRecord\<close> returns a promise: one already resolved with the
  stored registration, or one that the pending invocation will settle.  Reading
  \<open>getRegisterRequest\<close> of a missing registration key throws.
\<close>

datatype RegistrationPromise =
    ResolvedPromise ClientEventRegistration
  | InvocationPromise nat

definition invokeRegistrationFromRecord ::
  "userKey \<Rightarrow> ClientConnection \<Rightarrow> ListenerService \<Rightarrow>
   (error + RegistrationPromise) \<times> ListenerService" where
  "invokeRegistrationFromRecord userKey connection this =
     (let activeRegsOnUserKey = map_of (activeRegistrations this) userKey
      in case (case activeRegsOnUserKey of
                 None \<Rightarrow> None
               | Some m \<Rightarrow> map_of (registrationMaps this m) connection) of
           Some existing \<Rightarrow> (Inr (ResolvedPromise existing), this)
         | None \<Rightarrow>
             (case map_of (userKeyInformation this) userKey of
                None \<Rightarrow>
                  (Inl (TypeError [Str ''Cannot read property getRegisterRequest of undefined'']),
                   this)
              | Some registrationKey \<Rightarrow>
                  (let registerRequest =
                         copyWithNewCorrelationId (getRegisterRequest registrationKey);
                       codec' = getCodec registrationKey;
                       invocation = \<lparr>invocation_request = registerRequest,
                                     invocation_handler = Some (getHandler registrationKey),
                                     invocation_connection = connection,
                                     invocation_timeoutMillis = None\<rparr>
                   in (Inr (InvocationPromise (nextTask this)),
                       addTask (ReregisterInvocation userKey connection codec' None)
                         (emit (InvokeUrgent invocation) this)))))"

definition attachCallbacks :: "nat \<Rightarrow> mapRef \<Rightarrow> ListenerService \<Rightarrow> ListenerService" where
  "attachCallbacks t registrationMap this =
     this\<lparr>tasks :=
       map (\<lambda>(t', k).
              (t', if t' = t then
                     (case k of
                        ReregisterInvocation userKey connection codec' callbacks \<Rightarrow>
                          ReregisterInvocation userKey connection codec' (Some registrationMap)
                      | _ \<Rightarrow> k)
                   else k))
         (tasks this)\<rparr>"

text \<open>
  The \<open>forEach\<close> of \<open>reregisterListenersOnConnection\<close> over the outer map.  An
  exception thrown by \<open>invokeRegistrationFromRecord\<close> ends the loop and leaves the
  function; what was done before stays done.
\<close>

fun reregisterEach ::
  "ClientConnection \<Rightarrow> (userKey \<times> mapRef) list \<Rightarrow> ListenerService \<Rightarrow>
   error option \<times> ListenerService" where
  "reregisterEach connection [] this = (None, this)"
| "reregisterEach connection ((userKey, registrationMap) # rest) this =
     (if has (registrationMaps this registrationMap) connection then
        reregisterEach connection rest this
      else
        (case invokeRegistrationFromRecord userKey connection this of
           (Inl e, this') \<Rightarrow> (Some e, this')
         | (Inr (ResolvedPromise eventRegistration), this') \<Rightarrow>
             reregisterEach connection rest
               (addTask (ReregisterStore userKey registrationMap connection eventRegistration)
                  this')
         | (Inr (InvocationPromise t), this') \<Rightarrow>
             reregisterEach connection rest (attachCallbacks t registrationMap this')))"

definition reregisterListenersOnConnection ::
  "ClientConnection \<Rightarrow> ListenerService \<Rightarrow> error option \<times> ListenerService" where
  "reregisterListenersOnConnection connection this =
     reregisterEach connection (activeRegistrations this) this"

fun removeEach ::
  "ClientConnection \<Rightarrow> (userKey \<times> mapRef) list \<Rightarrow> ListenerService \<Rightarrow> ListenerService" where
  "removeEach connection [] this = this"
| "removeEach connection ((userKey, registrationsOnUserKey) # rest) this =
     removeEach connection rest
       (case map_of (registrationMaps this registrationsOnUserKey) connection of
          None \<Rightarrow> this
        | Some eventRegistration \<Rightarrow>
            removeEventHandler (correlationId eventRegistration) this)"

definition removeRegistrationsOnConnection ::
  "ClientConnection \<Rightarrow> ListenerService \<Rightarrow> ListenerService" where
  "removeRegistrationsOnConnection connection this =
     removeEach connection (activeRegistrations this) this"

definition onConnectionAdded ::
  "ClientConnection \<Rightarrow> ListenerService \<Rightarrow> error option \<times> ListenerService" where
  "onConnectionAdded connection this = reregisterListenersOnConnection connection this"

definition onConnectionRemoved :: "ClientConnection \<Rightarrow> ListenerService \<Rightarrow> ListenerService" where
  "onConnectionRemoved connection this = removeRegistrationsOnConnection connection this"

text \<open>The \<open>for\<close> loop of \<open>registerListener\<close> over the active connections.\<close>

fun registerEach ::
  "userKey \<Rightarrow> mapRef \<Rightarrow> ListenerMessageCodec \<Rightarrow> ClientMessageHandler \<Rightarrow> ClientMessage \<Rightarrow>
   nat \<Rightarrow> ClientConnection list \<Rightarrow> ListenerService \<Rightarrow> ListenerService" where
  "registerEach userKey connectionsOnUserKey codec' listenerHandlerFn registerRequest deferred
     [] this = this"
| "registerEach userKey connectionsOnUserKey codec' listenerHandlerFn registerRequest deferred
     (connection # rest) this =
     (if has (registrationMaps this connectionsOnUserKey) connection then
        registerEach userKey connectionsOnUserKey codec' listenerHandlerFn registerRequest
          deferred rest this
      else
        (let requestCopy = copyWithNewCorrelationId registerRequest;
             invocation = \<lparr>invocation_request = requestCopy,
                           invocation_handler = Some listenerHandlerFn,
                           invocation_connection = connection,
                           invocation_timeoutMillis = None\<rparr>
         in registerEach userKey connectionsOnUserKey codec' listenerHandlerFn registerRequest
              deferred rest
              (addTask (RegisterInvocation userKey connectionsOnUserKey connection codec' deferred)
                 (emit (InvokeUrgent invocation) this))))"

text \<open>
  \<open>registerListener\<close>.  The connections returned by \<open>getActiveConnections\<close> and the
  key generated by \<open>UuidUtil.generate\<close> are inputs.  The result is the promise returned
  (the index of its deferred) and the service.
\<close>

definition registerListener ::
  "ListenerMessageCodec \<Rightarrow> ClientMessageHandler \<Rightarrow> ClientConnection list \<Rightarrow> userKey \<Rightarrow>
   ListenerService \<Rightarrow> nat \<times> ListenerService" where
  "registerListener codec' listenerHandlerFn activeConnections userKey this =
     (let deferred = nextDeferred this;
          this = this\<lparr>deferreds := (deferreds this)(deferred := Pending),
                      nextDeferred := Suc deferred\<rparr>;
          registerRequest = encodeAddRequest codec' (isSmart this);
          (connectionsOnUserKey, this) =
            (case map_of (activeRegistrations this) userKey of
               Some m \<Rightarrow> (m, this)
             | None \<Rightarrow>
                 (let m = nextMapRef this;
                      this = this\<lparr>registrationMaps := (registrationMaps this)(m := []),
                                  nextMapRef := Suc m\<rparr>;
                      this = emit (ActiveRegistrationsSet userKey)
                               (this\<lparr>activeRegistrations :=
                                        AList.update userKey m (activeRegistrations this)\<rparr>);
                      this = emit (UserKeyInformationSet userKey)
                               (this\<lparr>userKeyInformation :=
                                        AList.update userKey
                                          \<lparr>getUserKey = userKey, getCodec = codec',
                                           getRegisterRequest = registerRequest,
                                           getHandler = listenerHandlerFn\<rparr>
                                          (userKeyInformation this)\<rparr>)
                  in (m, this)))
      in (deferred,
          registerEach userKey connectionsOnUserKey codec' listenerHandlerFn registerRequest
            deferred activeConnections this))"

subsection \<open>Callbacks\<close>

text \<open>
  Both registration paths build the \<open>ClientEventRegistration\<close> from the response in the
  same way; reading the correlation id and decoding the response may throw.
\<close>

definition newClientEventRegistration ::
  "ListenerMessageCodec \<Rightarrow> ClientConnection \<Rightarrow> ClientMessage \<Rightarrow>
   error + ClientEventRegistration" where
  "newClientEventRegistration codec' connection responseMessage =
     (case getCorrelationId responseMessage of
        Inl e \<Rightarrow> Inl e
      | Inr correlationId' \<Rightarrow>
          (case decodeAddResponse codec' responseMessage of
             Inl e \<Rightarrow> Inl e
           | Inr response \<Rightarrow>
               Inr \<lparr>serverRegistrationId = response, correlationId = correlationId',
                    subscriber = connection, codec = codec'\<rparr>))"

text \<open>
  The \<open>catch\<close> of \<open>registerListener\<close>; \<open>isAlive\<close> is the answer of
  \<open>invocation.connection.isAlive()\<close> when it runs.
\<close>

definition registerCatch ::
  "userKey \<Rightarrow> nat \<Rightarrow> error \<Rightarrow> bool \<Rightarrow> ListenerService \<Rightarrow> ListenerService" where
  "registerCatch userKey deferred err isAlive this =
     (if isAlive then
        (let this = snd (deregisterListener userKey this)
         in this\<lparr>deferreds := (deferreds this)
                   (deferred := reject (HazelcastError [Str ''Listener cannot be added!''] (Some err))
                                  (deferreds this deferred))\<rparr>)
      else this)"

text \<open>
  The settlement of an \<open>invokeUrgent\<close> of \<open>registerListener\<close>: the first \<open>then\<close> on a
  response, the \<open>catch\<close> on a failure or when the first \<open>then\<close> throws.
\<close>

definition registerThen ::
  "userKey \<Rightarrow> mapRef \<Rightarrow> ClientConnection \<Rightarrow> ListenerMessageCodec \<Rightarrow> nat \<Rightarrow>
   error + ClientMessage \<Rightarrow> bool \<Rightarrow> ListenerService \<Rightarrow> ListenerService" where
  "registerThen userKey connectionsOnUserKey connection codec' deferred outcome isAlive this =
     (case outcome of
        Inl err \<Rightarrow> registerCatch userKey deferred err isAlive this
      | Inr responseMessage \<Rightarrow>
          (case newClientEventRegistration codec' connection responseMessage of
             Inl err \<Rightarrow> registerCatch userKey deferred err isAlive this
           | Inr clientEventRegistration \<Rightarrow>
               addTask (RegisterResolve userKey deferred)
                 (registrationsSet connectionsOnUserKey connection clientEventRegistration
                    (emit (LoggerDebug [Str ''Listener '', Str userKey, Str '' registered on '',
                                        ConnectionToString connection])
                       this))))"

definition registerResolve :: "userKey \<Rightarrow> nat \<Rightarrow> ListenerService \<Rightarrow> ListenerService" where
  "registerResolve userKey deferred this =
     this\<lparr>deferreds := (deferreds this)(deferred := resolve userKey (deferreds this deferred))\<rparr>"

text \<open>
  The settlement of the \<open>invokeUrgent\<close> of \<open>invokeRegistrationFromRecord\<close>: its
  \<open>then\<close> resolves the promise, its \<open>catch\<close> rejects it with a \<open>HazelcastError\<close>, and
  the callbacks attached to the promise, if any, follow.
\<close>

definition reregisterThen ::
  "userKey \<Rightarrow> ClientConnection \<Rightarrow> ListenerMessageCodec \<Rightarrow> mapRef option \<Rightarrow>
   error + ClientMessage \<Rightarrow> ListenerService \<Rightarrow> ListenerService" where
  "reregisterThen userKey connection codec' callbacks outcome this =
     (case (case outcome of
              Inl err \<Rightarrow> Inl err
            | Inr responseMessage \<Rightarrow>
                newClientEventRegistration codec' connection responseMessage) of
        Inr eventRegistration \<Rightarrow>
          (let this = emit (LoggerDebug [Str ''Listener '', Str userKey,
                                         Str '' re-registered on '',
                                         ConnectionToString connection]) this
           in case callbacks of
                None \<Rightarrow> this
              | Some registrationMap \<Rightarrow>
                  addTask (ReregisterStore userKey registrationMap connection eventRegistration)
                    this)
      | Inl err \<Rightarrow>
          (case callbacks of
             None \<Rightarrow> this
           | Some registrationMap \<Rightarrow>
               emit (LoggerWarnError
                       (HazelcastError [Str ''Could not add listener['', Str userKey,
                                        Str ''] to connection['', ConnectionToString connection,
                                        Str '']''] (Some err)))
                 this))"

text \<open>The \<open>then\<close> that \<open>reregisterListenersOnConnection\<close> attaches.\<close>

definition reregisterStore ::
  "userKey \<Rightarrow> mapRef \<Rightarrow> ClientConnection \<Rightarrow> ClientEventRegistration \<Rightarrow>
   ListenerService \<Rightarrow> ListenerService" where
  "reregisterStore userKey registrationMap connection eventRegistration this =
     (if map_of (userKeyInformation this) userKey = None then
        deregisterListenerOnTarget userKey eventRegistration this
      else registrationsSet registrationMap connection eventRegistration this)"

text \<open>The \<open>catch\<close> of \<open>deregisterListenerOnTarget\<close>.\<close>

fun isConnectivityError :: "error \<Rightarrow> bool" where
  "isConnectivityError (ClientNotActiveError m) = True"
| "isConnectivityError (IOError m) = True"
| "isConnectivityError (TargetDisconnectedError m) = True"
| "isConnectivityError e = False"

definition deregisterCatch ::
  "userKey \<Rightarrow> ClientConnection \<Rightarrow> error + ClientMessage \<Rightarrow> ListenerService \<Rightarrow>
   ListenerService" where
  "deregisterCatch userKey connection outcome this =
     (case outcome of
        Inr responseMessage \<Rightarrow> this
      | Inl err \<Rightarrow>
          (if isConnectivityError err then this
           else emit (LoggerWarn [Str ''Deregistration of listener '', Str userKey,
                                  Str '' has failed for address '',
                                  RemoteAddressToString connection]) this))"

subsection \<open>The event loop\<close>

text \<open>
  The service runs on one thread: a call of a method and a callback each run to their
  end, in any order the outside chooses.  An event is a call from outside, the settlement
  of a pending invocation (with the outcome, and the liveness of its connection at that
  time), or the run of a callback that is due.
\<close>

datatype event =
    RegisterListener ListenerMessageCodec ClientMessageHandler "ClientConnection list" userKey
  | DeregisterListener userKey
  | ConnectionAdded ClientConnection
  | ConnectionRemoved ClientConnection
  | InvocationSettled nat "error + ClientMessage" bool
  | CallbackRun nat

fun step :: "event \<Rightarrow> ListenerService \<Rightarrow> ListenerService" where
  "step (RegisterListener codec' listenerHandlerFn activeConnections userKey) this =
     snd (registerListener codec' listenerHandlerFn activeConnections userKey this)"
| "step (DeregisterListener userKey) this = snd (deregisterListener userKey this)"
| "step (ConnectionAdded connection) this = snd (onConnectionAdded connection this)"
| "step (ConnectionRemoved connection) this = onConnectionRemoved connection this"
| "step (InvocationSettled t outcome isAlive) this =
     (case map_of (tasks this) t of
        Some (RegisterInvocation userKey connectionsOnUserKey connection codec' deferred) \<Rightarrow>
          registerThen userKey connectionsOnUserKey connection codec' deferred outcome isAlive
            (removeTask t this)
      | Some (ReregisterInvocation userKey connection codec' callbacks) \<Rightarrow>
          reregisterThen userKey connection codec' callbacks outcome (removeTask t this)
      | Some (DeregisterInvocation userKey connection) \<Rightarrow>
          deregisterCatch userKey connection outcome (removeTask t this)
      | _ \<Rightarrow> this)"
| "step (CallbackRun t) this =
     (case map_of (tasks this) t of
        Some (RegisterResolve userKey deferred) \<Rightarrow>
          registerResolve userKey deferred (removeTask t this)
      | Some (ReregisterStore userKey registrationMap connection eventRegistration) \<Rightarrow>
          reregisterStore userKey registrationMap connection eventRegistration
            (removeTask t this)
      | _ \<Rightarrow> this)"

definition run :: "event list \<Rightarrow> ListenerService \<Rightarrow> ListenerService" where
  "run es this = fold step es this"

subsection \<open>Observations\<close>

text \<open>
  What a call or a callback did: the effects recorded between the service before and the
  service after.
\<close>

definition issuedSince :: "ListenerService \<Rightarrow> ListenerService \<Rightarrow> effect list" where
  "issuedSince this this' = drop (length (trace this)) (trace this')"

text \<open>
  The remote remove-request for a physical registration, as \<open>deregisterListenerOnTarget\<close>
  issues it: none when the codec encodes \<open>null\<close>.
\<close>

definition removeRequest :: "ClientEventRegistration \<Rightarrow> effect list" where
  "removeRequest eventRegistration =
     (case encodeRemoveRequest (codec eventRegistration) (serverRegistrationId eventRegistration) of
        None \<Rightarrow> []
      | Some clientMessage \<Rightarrow>
          [Invoke \<lparr>invocation_request = clientMessage, invocation_handler = None,
                   invocation_connection = subscriber eventRegistration,
                   invocation_timeoutMillis = Some MAX_SAFE_INTEGER\<rparr>])"

text \<open>The effects of one visit of the loop of \<open>deregisterListener\<close>.\<close>

definition teardown :: "mapRef \<Rightarrow> ClientConnection \<times> ClientEventRegistration \<Rightarrow> effect list" where
  "teardown m entry =
     [RegistrationsDelete m (fst entry), RemoveEventHandler (correlationId (snd entry))]
     @ removeRequest (snd entry)"

fun isInvoke :: "effect \<Rightarrow> bool" where
  "isInvoke (Invoke i) = True"
| "isInvoke e = False"

text \<open>
  The registrations stored for a key: the inner map the key refers to, empty when the key
  is not active.
\<close>

definition storedFor :: "userKey \<Rightarrow> ListenerService \<Rightarrow> (ClientConnection \<times> ClientEventRegistration) list" where
  "storedFor k this =
     (case map_of (activeRegistrations this) k of
        None \<Rightarrow> []
      | Some m \<Rightarrow> registrationMaps this m)"

text \<open>
  The register-requests still in flight for a key on a connection: the pending
  \<open>invokeUrgent\<close> calls of \<open>registerListener\<close> and of \<open>invokeRegistrationFromRecord\<close>.
\<close>

fun attemptFor :: "userKey \<Rightarrow> ClientConnection \<Rightarrow> task \<Rightarrow> bool" where
  "attemptFor k c (RegisterInvocation userKey m connection codec' deferred) =
     (userKey = k \<and> connection = c)"
| "attemptFor k c (ReregisterInvocation userKey connection codec' callbacks) =
     (userKey = k \<and> connection = c)"
| "attemptFor k c (RegisterResolve userKey deferred) = False"
| "attemptFor k c (ReregisterStore userKey m connection eventRegistration) = False"
| "attemptFor k c (DeregisterInvocation userKey connection) = False"

definition attempts :: "userKey \<Rightarrow> ClientConnection \<Rightarrow> ListenerService \<Rightarrow> task list" where
  "attempts k c this = filter (attemptFor k c) (map snd (tasks this))"

text \<open>
  The connections on which a call of \<open>registerListener\<close>, identified by its promise,
  still has a register-request in flight.
\<close>

fun attemptOn :: "nat \<Rightarrow> task \<Rightarrow> ClientConnection list" where
  "attemptOn d (RegisterInvocation userKey m connection codec' deferred) =
     (if deferred = d then [connection] else [])"
| "attemptOn d (RegisterResolve userKey deferred) = []"
| "attemptOn d (ReregisterInvocation userKey connection codec' callbacks) = []"
| "attemptOn d (ReregisterStore userKey m connection eventRegistration) = []"
| "attemptOn d (DeregisterInvocation userKey connection) = []"

definition outstandingAttempts :: "nat \<Rightarrow> ListenerService \<Rightarrow> ClientConnection list" where
  "outstandingAttempts d this = concat (map (attemptOn d) (map snd (tasks this)))"

fun isInvokeUrgent :: "effect \<Rightarrow> bool" where
  "isInvokeUrgent (InvokeUrgent i) = True"
| "isInvokeUrgent e = False"

text \<open>The invocation that \<open>registerListener\<close> builds for a connection.\<close>

definition registerInvocation ::
  "ListenerMessageCodec \<Rightarrow> ClientMessageHandler \<Rightarrow> bool \<Rightarrow> ClientConnection \<Rightarrow> Invocation" where
  "registerInvocation codec' listenerHandlerFn smart connection =
     \<lparr>invocation_request = copyWithNewCorrelationId (encodeAddRequest codec' smart),
      invocation_handler = Some listenerHandlerFn,
      invocation_connection = connection, invocation_timeoutMillis = None\<rparr>"

subsection \<open>Example services\<close>

text \<open>
  Two codecs, one that has a remote remove-request and one that encodes \<open>null\<close> for it,
  and the service after a listener has been registered on the connections 1 and 2:
  both invocations have succeeded and both callbacks have run.
\<close>

definition exampleRequest :: "32 word \<Rightarrow> ClientMessage" where
  "exampleRequest t = addFrame ((createInitialFrame 0)\<lparr>header_messageType := t\<rparr>) createForEncode"

definition exampleResponse :: "64 word \<Rightarrow> ClientMessage" where
  "exampleResponse c =
     addFrame ((createInitialFrame 0)\<lparr>header_correlationId := c\<rparr>) createForEncode"

definition exampleCodec :: ListenerMessageCodec where
  "exampleCodec =
     \<lparr>encodeAddRequest = (\<lambda>localOnly. exampleRequest 1),
      decodeAddResponse = (\<lambda>m. Inr ''registration''),
      encodeRemoveRequest = (\<lambda>i. Some (exampleRequest 2))\<rparr>"

definition nullRemoveCodec :: ListenerMessageCodec where
  "nullRemoveCodec =
     \<lparr>encodeAddRequest = (\<lambda>localOnly. exampleRequest 1),
      decodeAddResponse = (\<lambda>m. Inr ''registration''),
      encodeRemoveRequest = (\<lambda>i. None)\<rparr>"

definition exampleRegistration :: "ClientConnection \<Rightarrow> 64 word \<Rightarrow> ClientEventRegistration" where
  "exampleRegistration c cid =
     \<lparr>serverRegistrationId = ''registration'', correlationId = cid, subscriber = c,
      codec = exampleCodec\<rparr>"

definition exampleRemoval :: "ClientConnection \<Rightarrow> effect" where
  "exampleRemoval c =
     Invoke \<lparr>invocation_request = exampleRequest 2, invocation_handler = None,
             invocation_connection = c, invocation_timeoutMillis = Some MAX_SAFE_INTEGER\<rparr>"

definition registeredOnTwo :: ListenerService where
  "registeredOnTwo =
     run [RegisterListener exampleCodec 0 [1, 2] ''k'',
          InvocationSettled 0 (Inr (exampleResponse 10)) True,
          InvocationSettled 1 (Inr (exampleResponse 11)) True,
          CallbackRun 2, CallbackRun 3] (constructor True)"

definition deregisteringTwo :: ListenerService where
  "deregisteringTwo = step (DeregisterListener ''k'') registeredOnTwo"

text \<open>
  The same registration step by step: both register-requests in flight; the first one
  answered and stored; its resolve callback run, the second request still in flight.
\<close>

definition registeringOnTwo :: ListenerService where
  "registeringOnTwo = run [RegisterListener exampleCodec 0 [1, 2] ''k''] (constructor True)"

definition firstStored :: ListenerService where
  "firstStored = step (InvocationSettled 0 (Inr (exampleResponse 10)) True) registeringOnTwo"

definition resolvedWithOutstanding :: ListenerService where
  "resolvedWithOutstanding = step (CallbackRun 2) firstStored"

text \<open>
  A listener registered while there is no connection, then connection 1 added, so that a
  re-registration is in flight; and the service after \<open>deregisterListener\<close> has run
  and the re-registration has been answered.
\<close>

definition reregisteringOnOne :: "ListenerMessageCodec \<Rightarrow> ListenerService" where
  "reregisteringOnOne codec' =
     run [RegisterListener codec' 0 [] ''k'', ConnectionAdded 1] (constructor True)"

definition deregisteredMeanwhile :: "ListenerMessageCodec \<Rightarrow> ListenerService" where
  "deregisteredMeanwhile codec' =
     run [InvocationSettled 0 (Inr (exampleResponse 10)) True]
       (snd (deregisterListener ''k'' (reregisteringOnOne codec')))"

section \<open>Properties of the proxies and of the codec\<close>

text \<open>
  C10: \<open>getPartitionKey\<close> of a CP Subsystem proxy always throws an
  \<open>UnsupportedOperationError\<close>; no proxy gets a partition key back.
\<close>

theorem getPartitionKey_always_throws:
  "getPartitionKey this =
     Inl (UnsupportedOperationError [Str ''This operation is not supported by CP Subsystem''])"
  by (simp add: getPartitionKey_def)





section \<open>Properties of the ListenerService\<close>

lemma emit_fields [simp]:
  "trace (emit e s) = trace s @ [e]"
  "activeRegistrations (emit e s) = activeRegistrations s"
  "userKeyInformation (emit e s) = userKeyInformation s"
  "registrationMaps (emit e s) = registrationMaps s"
  "deferreds (emit e s) = deferreds s"
  "tasks (emit e s) = tasks s"
  "nextTask (emit e s) = nextTask s"
  "nextDeferred (emit e s) = nextDeferred s"
  "nextMapRef (emit e s) = nextMapRef s"
  "isSmartService (emit e s) = isSmartService s"
  by (simp_all add: emit_def)

lemma addTask_fields [simp]:
  "trace (addTask k s) = trace s"
  "activeRegistrations (addTask k s) = activeRegistrations s"
  "userKeyInformation (addTask k s) = userKeyInformation s"
  "registrationMaps (addTask k s) = registrationMaps s"
  "deferreds (addTask k s) = deferreds s"
  "tasks (addTask k s) = tasks s @ [(nextTask s, k)]"
  "nextTask (addTask k s) = Suc (nextTask s)"
  "nextDeferred (addTask k s) = nextDeferred s"
  "nextMapRef (addTask k s) = nextMapRef s"
  "isSmartService (addTask k s) = isSmartService s"
  by (simp_all add: addTask_def)

lemma removeTask_fields [simp]:
  "trace (removeTask t s) = trace s"
  "activeRegistrations (removeTask t s) = activeRegistrations s"
  "userKeyInformation (removeTask t s) = userKeyInformation s"
  "registrationMaps (removeTask t s) = registrationMaps s"
  "deferreds (removeTask t s) = deferreds s"
  "tasks (removeTask t s) = AList.delete t (tasks s)"
  "nextTask (removeTask t s) = nextTask s"
  "nextDeferred (removeTask t s) = nextDeferred s"
  "nextMapRef (removeTask t s) = nextMapRef s"
  "isSmartService (removeTask t s) = isSmartService s"
  by (simp_all add: removeTask_def)

lemma attachCallbacks_fields [simp]:
  "trace (attachCallbacks t m s) = trace s"
  "activeRegistrations (attachCallbacks t m s) = activeRegistrations s"
  "userKeyInformation (attachCallbacks t m s) = userKeyInformation s"
  "registrationMaps (attachCallbacks t m s) = registrationMaps s"
  "deferreds (attachCallbacks t m s) = deferreds s"
  "nextTask (attachCallbacks t m s) = nextTask s"
  by (simp_all add: attachCallbacks_def)

lemma registrationsSet_fields [simp]:
  "trace (registrationsSet m c reg s) = trace s @ [RegistrationsSet m c (correlationId reg)]"
  "activeRegistrations (registrationsSet m c reg s) = activeRegistrations s"
  "userKeyInformation (registrationsSet m c reg s) = userKeyInformation s"
  "registrationMaps (registrationsSet m c reg s) =
     (registrationMaps s)(m := AList.update c reg (registrationMaps s m))"
  "deferreds (registrationsSet m c reg s) = deferreds s"
  "tasks (registrationsSet m c reg s) = tasks s"
  "nextTask (registrationsSet m c reg s) = nextTask s"
  by (simp_all add: registrationsSet_def)

lemma registrationsDelete_fields [simp]:
  "trace (registrationsDelete m c s) = trace s @ [RegistrationsDelete m c]"
  "activeRegistrations (registrationsDelete m c s) = activeRegistrations s"
  "userKeyInformation (registrationsDelete m c s) = userKeyInformation s"
  "registrationMaps (registrationsDelete m c s) =
     (registrationMaps s)(m := AList.delete c (registrationMaps s m))"
  "deferreds (registrationsDelete m c s) = deferreds s"
  "tasks (registrationsDelete m c s) = tasks s"
  "nextTask (registrationsDelete m c s) = nextTask s"
  by (simp_all add: registrationsDelete_def)

lemma removeEventHandler_fields [simp]:
  "trace (removeEventHandler cid s) = trace s @ [RemoveEventHandler cid]"
  "activeRegistrations (removeEventHandler cid s) = activeRegistrations s"
  "userKeyInformation (removeEventHandler cid s) = userKeyInformation s"
  "registrationMaps (removeEventHandler cid s) = registrationMaps s"
  "deferreds (removeEventHandler cid s) = deferreds s"
  "tasks (removeEventHandler cid s) = tasks s"
  "nextTask (removeEventHandler cid s) = nextTask s"
  by (simp_all add: removeEventHandler_def)

lemma deregisterListenerOnTarget_fields [simp]:
  "trace (deregisterListenerOnTarget k reg s) = trace s @ removeRequest reg"
  "activeRegistrations (deregisterListenerOnTarget k reg s) = activeRegistrations s"
  "userKeyInformation (deregisterListenerOnTarget k reg s) = userKeyInformation s"
  "registrationMaps (deregisterListenerOnTarget k reg s) = registrationMaps s"
  "deferreds (deregisterListenerOnTarget k reg s) = deferreds s"
  by (simp_all add: deregisterListenerOnTarget_def removeRequest_def Let_def split: option.splits)

lemma deregisterEach_fields [simp]:
  "trace (deregisterEach k m l s) = trace s @ concat (map (teardown m) l)"
  "activeRegistrations (deregisterEach k m l s) = activeRegistrations s"
  "userKeyInformation (deregisterEach k m l s) = userKeyInformation s"
  "deferreds (deregisterEach k m l s) = deferreds s"
  by (induction k m l s rule: deregisterEach.induct; simp add: teardown_def)+




lemma deregisterListener_trace:
  "map_of (activeRegistrations s) k = Some m \<Longrightarrow>
   trace (snd (deregisterListener k s)) =
     trace s @ ActiveRegistrationsDelete k # UserKeyInformationDelete k #
       concat (map (teardown m) (registrationMaps s m))"
  by (simp add: deregisterListener_def Let_def)

lemmas listener_defs =
  run_def constructor_def registerListener_def deregisterListener_def
  deregisterListenerOnTarget_def invokeRegistrationFromRecord_def attachCallbacks_def
  reregisterListenersOnConnection_def removeRegistrationsOnConnection_def onConnectionAdded_def
  onConnectionRemoved_def newClientEventRegistration_def registerCatch_def registerThen_def
  registerResolve_def reregisterThen_def reregisterStore_def deregisterCatch_def
  emit_def addTask_def removeTask_def has_def registrationsSet_def registrationsDelete_def
  removeEventHandler_def isSmart_def copyWithNewCorrelationId_def resolve_def reject_def
  getCorrelationId_def

lemmas example_defs =
  exampleRequest_def exampleResponse_def addFrame_def createInitialFrame_def createForEncode_def

lemma registeredOnTwo_fields:
  "activeRegistrations registeredOnTwo = [(''k'', 0)]"
  "map fst (userKeyInformation registeredOnTwo) = [''k'']"
  "registrationMaps registeredOnTwo 0 = [(1, exampleRegistration 1 10), (2, exampleRegistration 2 11)]"
  "tasks registeredOnTwo = []"
  "deferreds registeredOnTwo 0 = Resolved ''k''"
  by (simp_all add: registeredOnTwo_def listener_defs example_defs exampleCodec_def
      exampleRegistration_def Let_def)

lemma issuedSince_append [simp]: "trace s' = trace s @ t \<Longrightarrow> issuedSince s s' = t"
  by (simp add: issuedSince_def)

lemma removeEach_fields [simp]:
  "activeRegistrations (removeEach c l s) = activeRegistrations s"
  "userKeyInformation (removeEach c l s) = userKeyInformation s"
  "registrationMaps (removeEach c l s) = registrationMaps s"
  "deferreds (removeEach c l s) = deferreds s"
  "tasks (removeEach c l s) = tasks s"
  by (induction c l s rule: removeEach.induct; simp split: option.splits)+

lemma removeRegistrationsOnConnection_keeps_maps:
  "registrationMaps (removeRegistrationsOnConnection c s) = registrationMaps s"
  by (simp add: removeRegistrationsOnConnection_def)

lemma removeRequest_example [simp]:
  "removeRequest (exampleRegistration c cid) = [exampleRemoval c]"
  by (simp add: removeRequest_def exampleRegistration_def exampleCodec_def exampleRemoval_def)

lemma exampleRegistration_fields [simp]:
  "correlationId (exampleRegistration c cid) = cid"
  "subscriber (exampleRegistration c cid) = c"
  "serverRegistrationId (exampleRegistration c cid) = ''registration''"
  "codec (exampleRegistration c cid) = exampleCodec"
  by (simp_all add: exampleRegistration_def)

lemma isInvoke_exampleRemoval [simp]: "isInvoke (exampleRemoval c)"
  by (simp add: exampleRemoval_def)

text \<open>
  C4: with a listener registered on the connections 1 and 2, the removal of connection 1
  removes the event handler of its registration and issues no remote request, but the
  record of connection 1 stays in the tracking table: two registrations remain stored
  for the key, and a later \<open>deregisterListener\<close> issues a remote remove-request for
  both.
\<close>

theorem removed_connection_record_remains:
  "registrationMaps (step (ConnectionRemoved 1) registeredOnTwo) 0 =
     [(1, exampleRegistration 1 10), (2, exampleRegistration 2 11)] \<and>
   issuedSince registeredOnTwo (step (ConnectionRemoved 1) registeredOnTwo) =
     [RemoveEventHandler 10] \<and>
   filter isInvoke
     (issuedSince (step (ConnectionRemoved 1) registeredOnTwo)
        (step (DeregisterListener ''k'') (step (ConnectionRemoved 1) registeredOnTwo))) =
     [exampleRemoval 1, exampleRemoval 2]"
  by (simp add: onConnectionRemoved_def removeRegistrationsOnConnection_def
      registeredOnTwo_fields issuedSince_def deregisterListener_def Let_def teardown_def)

text \<open>
  C3, as amended: \<open>deregisterListener\<close> of an active key first deletes the key from the
  active-registrations table and from the user-key table; then, for each physical
  registration in turn, it deletes the per-connection record, removes the event handler
  and only then issues the remote remove-request of that registration.
\<close>

theorem deregisterListener_order:
  "map_of (activeRegistrations this) userKey = Some m \<Longrightarrow>
   issuedSince this (snd (deregisterListener userKey this)) =
     ActiveRegistrationsDelete userKey # UserKeyInformationDelete userKey #
     concat (map (\<lambda>(connection, eventRegistration).
                    RegistrationsDelete m connection #
                    RemoveEventHandler (correlationId eventRegistration) #
                    removeRequest eventRegistration)
               (registrationMaps this m))"
proof -
  assume a: "map_of (activeRegistrations this) userKey = Some m"
  have "teardown m = (\<lambda>(connection, eventRegistration).
                    RegistrationsDelete m connection #
                    RemoveEventHandler (correlationId eventRegistration) #
                    removeRequest eventRegistration)"
    by (simp add: fun_eq_iff teardown_def)
  then show ?thesis using deregisterListener_trace [OF a] by simp
qed

theorem deregisterListener_order_witness:
  "map_of (activeRegistrations registeredOnTwo) ''k'' = Some 0 \<and>
   issuedSince registeredOnTwo (snd (deregisterListener ''k'' registeredOnTwo)) =
     [ActiveRegistrationsDelete ''k'', UserKeyInformationDelete ''k'',
      RegistrationsDelete 0 1, RemoveEventHandler 10, exampleRemoval 1,
      RegistrationsDelete 0 2, RemoveEventHandler 11, exampleRemoval 2]"
  using deregisterListener_order [of registeredOnTwo "''k''" 0]
  by (simp add: registeredOnTwo_fields)

text \<open>
  C3, as stated, fails with two physical registrations: the remote remove-request for
  connection 1 is issued (position 4) before the event handler of the registration on
  connection 2 is removed (position 6).
\<close>

theorem handler_removed_after_remote_request:
  "map_of (registrationMaps registeredOnTwo 0) 2 = Some (exampleRegistration 2 11) \<and>
   issuedSince registeredOnTwo (snd (deregisterListener ''k'' registeredOnTwo)) ! 4 =
     exampleRemoval 1 \<and>
   issuedSince registeredOnTwo (snd (deregisterListener ''k'' registeredOnTwo)) ! 6 =
     RemoveEventHandler (correlationId (exampleRegistration 2 11))"
  by (simp add: registeredOnTwo_fields issuedSince_def deregisterListener_def Let_def
      teardown_def)

lemma isConnectivityError_iff:
  "isConnectivityError err =
     (\<exists>m. err = ClientNotActiveError m \<or> err = IOError m \<or> err = TargetDisconnectedError m)"
  by (cases err) simp_all

lemma deregisterCatch_fields [simp]:
  "activeRegistrations (deregisterCatch k c outcome s) = activeRegistrations s"
  "userKeyInformation (deregisterCatch k c outcome s) = userKeyInformation s"
  "registrationMaps (deregisterCatch k c outcome s) = registrationMaps s"
  "deferreds (deregisterCatch k c outcome s) = deferreds s"
  "tasks (deregisterCatch k c outcome s) = tasks s"
  by (simp_all add: deregisterCatch_def split: sum.splits)

lemma deregisterListener_resolved:
  "fst (deregisterListener userKey this) = Resolved (has (activeRegistrations this) userKey)"
  by (simp add: deregisterListener_def has_def Let_def split: option.splits)

text \<open>
  C7: a \<open>null\<close> remove-request causes no invocation and leaves the service as it is;
  the promise of \<open>deregisterListener\<close> is resolved when it is returned; and when a
  remote remove-request fails later, no promise changes, nothing but the task of that
  request changes in the service, and a warning is logged unless the error is a
  \<open>ClientNotActiveError\<close>, an \<open>IOError\<close> or a \<open>TargetDisconnectedError\<close>.
\<close>

theorem deregister_failure_absorbed:
  "(encodeRemoveRequest (codec eventRegistration) (serverRegistrationId eventRegistration) = None
      \<longrightarrow> deregisterListenerOnTarget userKey eventRegistration this = this) \<and>
   fst (deregisterListener userKey this) = Resolved (has (activeRegistrations this) userKey) \<and>
   (map_of (tasks this) t = Some (DeregisterInvocation userKey connection) \<longrightarrow>
      deferreds (step (InvocationSettled t (Inl err) isAlive) this) = deferreds this \<and>
      activeRegistrations (step (InvocationSettled t (Inl err) isAlive) this) =
        activeRegistrations this \<and>
      userKeyInformation (step (InvocationSettled t (Inl err) isAlive) this) =
        userKeyInformation this \<and>
      registrationMaps (step (InvocationSettled t (Inl err) isAlive) this) =
        registrationMaps this \<and>
      tasks (step (InvocationSettled t (Inl err) isAlive) this) = AList.delete t (tasks this) \<and>
      issuedSince this (step (InvocationSettled t (Inl err) isAlive) this) =
        (if (\<exists>m. err = ClientNotActiveError m \<or> err = IOError m \<or>
                  err = TargetDisconnectedError m)
         then []
         else [LoggerWarn [Str ''Deregistration of listener '', Str userKey,
                           Str '' has failed for address '',
                           RemoteAddressToString connection]]))"
proof (intro conjI impI)
  assume "encodeRemoveRequest (codec eventRegistration) (serverRegistrationId eventRegistration) = None"
  then show "deregisterListenerOnTarget userKey eventRegistration this = this"
    by (simp add: deregisterListenerOnTarget_def)
next
  show "fst (deregisterListener userKey this) = Resolved (has (activeRegistrations this) userKey)"
    by (rule deregisterListener_resolved)
next
  assume t: "map_of (tasks this) t = Some (DeregisterInvocation userKey connection)"
  then show "issuedSince this (step (InvocationSettled t (Inl err) isAlive) this) =
        (if (\<exists>m. err = ClientNotActiveError m \<or> err = IOError m \<or>
                  err = TargetDisconnectedError m)
         then []
         else [LoggerWarn [Str ''Deregistration of listener '', Str userKey,
                           Str '' has failed for address '',
                           RemoteAddressToString connection]])"
    by (simp add: deregisterCatch_def isConnectivityError_iff [symmetric])
qed simp_all

lemma deregisteringTwo_fields:
  "activeRegistrations deregisteringTwo = []"
  "userKeyInformation deregisteringTwo = []"
  "registrationMaps deregisteringTwo 0 = []"
  "tasks deregisteringTwo =
     [(4, DeregisterInvocation ''k'' 1), (5, DeregisterInvocation ''k'' 2)]"
  "deferreds deregisteringTwo 0 = Resolved ''k''"
  by (simp_all add: deregisteringTwo_def registeredOnTwo_def listener_defs example_defs
      exampleCodec_def exampleRegistration_def Let_def)

theorem deregister_failure_absorbed_witness:
  "encodeRemoveRequest (codec ((exampleRegistration 1 10)\<lparr>codec := nullRemoveCodec\<rparr>))
     (serverRegistrationId ((exampleRegistration 1 10)\<lparr>codec := nullRemoveCodec\<rparr>)) = None \<and>
   deregisterListenerOnTarget ''k'' ((exampleRegistration 1 10)\<lparr>codec := nullRemoveCodec\<rparr>)
     deregisteringTwo = deregisteringTwo \<and>
   map_of (tasks deregisteringTwo) 4 = Some (DeregisterInvocation ''k'' 1) \<and>
   deferreds (step (InvocationSettled 4 (Inl (OtherError [Str ''failed''])) True) deregisteringTwo)
     = deferreds deregisteringTwo \<and>
   issuedSince deregisteringTwo
     (step (InvocationSettled 4 (Inl (OtherError [Str ''failed''])) True) deregisteringTwo) =
     [LoggerWarn [Str ''Deregistration of listener '', Str ''k'',
                  Str '' has failed for address '', RemoteAddressToString 1]]"
  using deregister_failure_absorbed [of "(exampleRegistration 1 10)\<lparr>codec := nullRemoveCodec\<rparr>"
      "''k''" deregisteringTwo 4 1 "OtherError [Str ''failed'']" True]
  by (simp add: deregisteringTwo_fields nullRemoveCodec_def)

lemma registerEach_fields [simp]:
  "activeRegistrations (registerEach k m cod h rq d cs s) = activeRegistrations s"
  "userKeyInformation (registerEach k m cod h rq d cs s) = userKeyInformation s"
  "registrationMaps (registerEach k m cod h rq d cs s) = registrationMaps s"
  "deferreds (registerEach k m cod h rq d cs s) = deferreds s"
  by (induction k m cod h rq d cs s rule: registerEach.induct; simp add: Let_def)+

lemma invokeRegistrationFromRecord_fields [simp]:
  "activeRegistrations (snd (invokeRegistrationFromRecord k c s)) = activeRegistrations s"
  "userKeyInformation (snd (invokeRegistrationFromRecord k c s)) = userKeyInformation s"
  "registrationMaps (snd (invokeRegistrationFromRecord k c s)) = registrationMaps s"
  "deferreds (snd (invokeRegistrationFromRecord k c s)) = deferreds s"
  by (simp_all add: invokeRegistrationFromRecord_def Let_def split: option.splits)

lemma invokeRegistrationFromRecord_frame:
  "invokeRegistrationFromRecord k c s = (r, s') \<Longrightarrow>
   activeRegistrations s' = activeRegistrations s \<and>
   userKeyInformation s' = userKeyInformation s \<and>
   registrationMaps s' = registrationMaps s \<and>
   deferreds s' = deferreds s"
  using invokeRegistrationFromRecord_fields [of k c s] by simp

lemma reregisterEach_frame:
  "activeRegistrations (snd (reregisterEach c l s)) = activeRegistrations s \<and>
   userKeyInformation (snd (reregisterEach c l s)) = userKeyInformation s \<and>
   registrationMaps (snd (reregisterEach c l s)) = registrationMaps s \<and>
   deferreds (snd (reregisterEach c l s)) = deferreds s"
proof (induction l arbitrary: s)
  case Nil
  then show ?case by simp
next
  case (Cons a l)
  obtain k m where a: "a = (k, m)" by (cases a)
  obtain r s' where iv: "invokeRegistrationFromRecord k c s = (r, s')"
    by (cases "invokeRegistrationFromRecord k c s")
  note fr = invokeRegistrationFromRecord_frame [OF iv]
  show ?case
  proof (cases "has (registrationMaps s m) c")
    case True
    then show ?thesis using Cons.IH [of s] a by simp
  next
    case False
    show ?thesis
    proof (cases r)
      case (Inl e)
      then show ?thesis using False a iv fr by simp
    next
      case (Inr p)
      then show ?thesis
      proof (cases p)
        case (ResolvedPromise reg)
        then show ?thesis
          using False a iv fr Inr
            Cons.IH [of "addTask (ReregisterStore k m c reg) s'"]
          by simp
      next
        case (InvocationPromise t)
        then show ?thesis
          using False a iv fr Inr Cons.IH [of "attachCallbacks t m s'"]
          by simp
      qed
    qed
  qed
qed

lemma reregisterEach_fields [simp]:
  "activeRegistrations (snd (reregisterEach c l s)) = activeRegistrations s"
  "userKeyInformation (snd (reregisterEach c l s)) = userKeyInformation s"
  "registrationMaps (snd (reregisterEach c l s)) = registrationMaps s"
  "deferreds (snd (reregisterEach c l s)) = deferreds s"
  using reregisterEach_frame [of c l s] by simp_all

lemma deregisterListener_userKeyInformation:
  "map_of (userKeyInformation (snd (deregisterListener k s))) k' =
     (if has (activeRegistrations s) k \<and> k' = k then None else map_of (userKeyInformation s) k')"
  by (auto simp add: deregisterListener_def Let_def has_def delete_conv split: option.splits)


lemma deregisterListener_deferreds [simp]:
  "deferreds (snd (deregisterListener k s)) = deferreds s"
  by (simp add: deregisterListener_def Let_def split: option.splits)

lemma registerListener_userKeyInformation:
  "k' \<noteq> k \<Longrightarrow>
   map_of (userKeyInformation (snd (registerListener cod h cs k s))) k' =
     map_of (userKeyInformation s) k'"
  by (simp add: registerListener_def Let_def update_conv' split: option.splits prod.splits)

lemma absent_deregister:
  "map_of (userKeyInformation s) k = None \<Longrightarrow>
   map_of (userKeyInformation (snd (deregisterListener k' s))) k = None"
  by (simp add: deregisterListener_userKeyInformation)

lemma step_keeps_absent:
  assumes "map_of (userKeyInformation s) k = None"
    and "\<And>cod h cs. e \<noteq> RegisterListener cod h cs k"
  shows "map_of (userKeyInformation (step e s)) k = None"
proof (cases e)
  case (RegisterListener cod h cs k')
  then have "k' \<noteq> k" using assms(2) by auto
  then show ?thesis using assms(1) RegisterListener
    by (simp add: registerListener_userKeyInformation)
next
  case (DeregisterListener k')
  then show ?thesis using assms(1) by (simp add: absent_deregister)
next
  case (ConnectionAdded c)
  then show ?thesis using assms(1)
    by (simp add: onConnectionAdded_def reregisterListenersOnConnection_def)
next
  case (ConnectionRemoved c)
  then show ?thesis using assms(1)
    by (simp add: onConnectionRemoved_def removeRegistrationsOnConnection_def)
next
  case (InvocationSettled t outcome alive)
  then show ?thesis using assms(1)
    by (auto simp add: registerThen_def registerCatch_def reregisterThen_def Let_def
        absent_deregister
        split: option.splits task.splits sum.splits)
next
  case (CallbackRun t)
  then show ?thesis using assms(1)
    by (auto simp add: registerResolve_def reregisterStore_def
        split: option.splits task.splits)
qed

lemma run_keeps_absent:
  "map_of (userKeyInformation s) k = None \<Longrightarrow>
   \<forall>e \<in> set es. \<forall>cod h cs. e \<noteq> RegisterListener cod h cs k \<Longrightarrow>
   map_of (userKeyInformation (run es s)) k = None"
proof (induction es arbitrary: s)
  case Nil
  then show ?case by (simp add: run_def)
next
  case (Cons e es)
  have "map_of (userKeyInformation (step e s)) k = None"
    using Cons.prems by (intro step_keeps_absent) auto
  then have "map_of (userKeyInformation (run es (step e s))) k = None"
    using Cons.prems by (intro Cons.IH) auto
  then show ?case by (simp add: run_def)
qed

lemma exampleCodec_methods [simp]:
  "encodeAddRequest exampleCodec b = exampleRequest 1"
  "decodeAddResponse exampleCodec m = Inr ''registration''"
  "encodeRemoveRequest exampleCodec i = Some (exampleRequest 2)"
  by (simp_all add: exampleCodec_def)

lemma nullRemoveCodec_methods [simp]:
  "encodeAddRequest nullRemoveCodec b = exampleRequest 1"
  "decodeAddResponse nullRemoveCodec m = Inr ''registration''"
  "encodeRemoveRequest nullRemoveCodec i = None"
  by (simp_all add: nullRemoveCodec_def)

lemma reregisterStore_absent:
  assumes "map_of (userKeyInformation s) k = None"
    and "map_of (tasks s) t = Some (ReregisterStore k m c reg)"
  shows "registrationMaps (step (CallbackRun t) s) = registrationMaps s"
    and "activeRegistrations (step (CallbackRun t) s) = activeRegistrations s"
    and "userKeyInformation (step (CallbackRun t) s) = userKeyInformation s"
    and "issuedSince s (step (CallbackRun t) s) = removeRequest reg"
  using assms by (simp_all add: reregisterStore_def)

text \<open>
  C1, as amended: after \<open>deregisterListener\<close> has run for an active key, and whatever
  happens in between (short of a registration under the very same key), when the
  \<open>then\<close> callback of a re-registration for that key runs it stores nothing and
  leaves the tracking tables as they are; it issues the remote remove-request for the
  registration just created if the codec encodes one, and nothing if the codec encodes
  \<open>null\<close>.
\<close>

theorem reregistration_after_deregister:
  assumes "has (activeRegistrations this) userKey"
    and "\<forall>e \<in> set es. \<forall>codec' listenerHandlerFn activeConnections.
           e \<noteq> RegisterListener codec' listenerHandlerFn activeConnections userKey"
    and "map_of (tasks (run es (snd (deregisterListener userKey this)))) t =
           Some (ReregisterStore userKey registrationMap connection eventRegistration)"
  shows "registrationMaps (step (CallbackRun t) (run es (snd (deregisterListener userKey this))))
           = registrationMaps (run es (snd (deregisterListener userKey this))) \<and>
         activeRegistrations (step (CallbackRun t) (run es (snd (deregisterListener userKey this))))
           = activeRegistrations (run es (snd (deregisterListener userKey this))) \<and>
         userKeyInformation (step (CallbackRun t) (run es (snd (deregisterListener userKey this))))
           = userKeyInformation (run es (snd (deregisterListener userKey this))) \<and>
         issuedSince (run es (snd (deregisterListener userKey this)))
           (step (CallbackRun t) (run es (snd (deregisterListener userKey this)))) =
           (case encodeRemoveRequest (codec eventRegistration)
                   (serverRegistrationId eventRegistration) of
              None \<Rightarrow> []
            | Some clientMessage \<Rightarrow>
                [Invoke \<lparr>invocation_request = clientMessage, invocation_handler = None,
                         invocation_connection = subscriber eventRegistration,
                         invocation_timeoutMillis = Some MAX_SAFE_INTEGER\<rparr>])"
proof -
  have "map_of (userKeyInformation (snd (deregisterListener userKey this))) userKey = None"
    using assms(1) by (simp add: deregisterListener_userKeyInformation)
  then have "map_of (userKeyInformation (run es (snd (deregisterListener userKey this)))) userKey
      = None"
    using assms(2) by (rule run_keeps_absent)
  from reregisterStore_absent [OF this assms(3)] show ?thesis
    by (simp add: removeRequest_def)
qed

lemma reregisteringOnOne_fields:
  "activeRegistrations (reregisteringOnOne cod) = [(''k'', 0)]"
  "registrationMaps (reregisteringOnOne cod) 0 = []"
  "tasks (reregisteringOnOne cod) = [(0, ReregisterInvocation ''k'' 1 cod (Some 0))]"
  by (simp_all add: reregisteringOnOne_def listener_defs Let_def)

lemma deregisteredMeanwhile_example:
  "activeRegistrations (deregisteredMeanwhile exampleCodec) = []"
  "userKeyInformation (deregisteredMeanwhile exampleCodec) = []"
  "registrationMaps (deregisteredMeanwhile exampleCodec) 0 = []"
  "tasks (deregisteredMeanwhile exampleCodec) =
     [(1, ReregisterStore ''k'' 0 1 (exampleRegistration 1 10))]"
  by (simp_all add: deregisteredMeanwhile_def reregisteringOnOne_def listener_defs Let_def
      example_defs exampleCodec_def exampleRegistration_def)

theorem reregistration_after_deregister_witness:
  "has (activeRegistrations (reregisteringOnOne exampleCodec)) ''k'' \<and>
   (\<forall>codec' listenerHandlerFn activeConnections.
      InvocationSettled 0 (Inr (exampleResponse 10)) True \<noteq>
      RegisterListener codec' listenerHandlerFn activeConnections ''k'') \<and>
   map_of (tasks (deregisteredMeanwhile exampleCodec)) 1 =
     Some (ReregisterStore ''k'' 0 1 (exampleRegistration 1 10)) \<and>
   registrationMaps (step (CallbackRun 1) (deregisteredMeanwhile exampleCodec)) 0 = [] \<and>
   issuedSince (deregisteredMeanwhile exampleCodec)
     (step (CallbackRun 1) (deregisteredMeanwhile exampleCodec)) = [exampleRemoval 1]"
  using reregistration_after_deregister [of "reregisteringOnOne exampleCodec" "''k''"
      "[InvocationSettled 0 (Inr (exampleResponse 10)) True]" 1 0 1 "exampleRegistration 1 10"]
  by (simp add: deregisteredMeanwhile_example reregisteringOnOne_fields has_def
      deregisteredMeanwhile_def [symmetric] exampleRemoval_def)

text \<open>
  C1, as stated, fails for a codec whose remove-request is \<open>null\<close>: the re-registration
  answered after \<open>deregisterListener\<close> is not stored, and no remove-request is issued
  for it either.
\<close>

theorem reregistration_without_remove_request:
  "map_of (userKeyInformation (deregisteredMeanwhile nullRemoveCodec)) ''k'' = None \<and>
   map_of (tasks (deregisteredMeanwhile nullRemoveCodec)) 1 =
     Some (ReregisterStore ''k'' 0 1
            \<lparr>serverRegistrationId = ''registration'', correlationId = 10, subscriber = 1,
             codec = nullRemoveCodec\<rparr>) \<and>
   issuedSince (deregisteredMeanwhile nullRemoveCodec)
     (step (CallbackRun 1) (deregisteredMeanwhile nullRemoveCodec)) = [] \<and>
   filter isInvoke (trace (step (CallbackRun 1) (deregisteredMeanwhile nullRemoveCodec))) = []"
  by (simp add: deregisteredMeanwhile_def reregisteringOnOne_def listener_defs Let_def
      example_defs nullRemoveCodec_def issuedSince_def)

lemma registerEach_tasks:
  "map snd (tasks (registerEach k m cod h rq d cs s)) =
     map snd (tasks s) @
     map (\<lambda>c. RegisterInvocation k m c cod d)
       (filter (\<lambda>c. \<not> has (registrationMaps s m) c) cs)"
  by (induction k m cod h rq d cs s rule: registerEach.induct) (simp_all add: Let_def)

lemma registerEach_trace:
  "trace (registerEach k m cod h rq d cs s) =
     trace s @
     map (\<lambda>c. InvokeUrgent \<lparr>invocation_request = copyWithNewCorrelationId rq,
                              invocation_handler = Some h,
                              invocation_connection = c, invocation_timeoutMillis = None\<rparr>)
       (filter (\<lambda>c. \<not> has (registrationMaps s m) c) cs)"
  by (induction k m cod h rq d cs s rule: registerEach.induct) (simp_all add: Let_def)

lemma registerListener_tasks:
  "map snd (tasks (snd (registerListener cod h cs k s))) =
     map snd (tasks s) @
     map (\<lambda>c. RegisterInvocation k
                 (case map_of (activeRegistrations s) k of None \<Rightarrow> nextMapRef s | Some m \<Rightarrow> m)
                 c cod (nextDeferred s))
       (filter (\<lambda>c. \<not> has (storedFor k s) c) cs)"
  by (simp add: registerListener_def Let_def registerEach_tasks storedFor_def
      split: option.splits prod.splits)

lemma registerListener_trace:
  "trace (snd (registerListener cod h cs k s)) =
     trace s @
     (case map_of (activeRegistrations s) k of
        None \<Rightarrow> [ActiveRegistrationsSet k, UserKeyInformationSet k]
      | Some m \<Rightarrow> []) @
     map (\<lambda>c. InvokeUrgent (registerInvocation cod h (isSmart s) c))
       (filter (\<lambda>c. \<not> has (storedFor k s) c) cs)"
  by (simp add: registerListener_def Let_def registerEach_trace storedFor_def isSmart_def
      registerInvocation_def
      split: option.splits prod.splits)

lemma registerListener_deferred:
  "fst (registerListener cod h cs k s) = nextDeferred s"
  "deferreds (snd (registerListener cod h cs k s)) = (deferreds s)(nextDeferred s := Pending)"
  by (simp_all add: registerListener_def Let_def split: option.splits prod.splits)




lemma attempts_emit [simp]: "attempts k c (emit e s) = attempts k c s"
  by (simp add: attempts_def)





lemma outstandingAttempts_registerListener:
  "outstandingAttempts (nextDeferred s) (snd (registerListener cod h cs k s)) =
     outstandingAttempts (nextDeferred s) s @ filter (\<lambda>c. \<not> has (storedFor k s) c) cs"
proof -
  have "concat (map (attemptOn d) (map (\<lambda>c. RegisterInvocation k m c cod d) l)) = l" for d m l
    by (induction l) simp_all
  then show ?thesis by (simp add: outstandingAttempts_def registerListener_tasks)
qed

lemma registerListener_invokeUrgent:
  "filter isInvokeUrgent (issuedSince s (snd (registerListener cod h cs k s))) =
     map (\<lambda>c. InvokeUrgent (registerInvocation cod h (isSmart s) c))
       (filter (\<lambda>c. \<not> has (storedFor k s) c) cs)"
proof -
  have "filter isInvokeUrgent (map (\<lambda>c. InvokeUrgent (f c)) l) = map (\<lambda>c. InvokeUrgent (f c)) l"
    for f :: "ClientConnection \<Rightarrow> Invocation" and l
    by (induction l) simp_all
  then show ?thesis
    by (simp add: registerListener_trace issuedSince_def split: option.splits)
qed

lemma registerThen_success:
  assumes "map_of (tasks s) t = Some (RegisterInvocation k m c cod d)"
    and "newClientEventRegistration cod c responseMessage = Inr reg"
  shows "registrationMaps (step (InvocationSettled t (Inr responseMessage) alive) s) m =
           AList.update c reg (registrationMaps s m)"
    and "tasks (step (InvocationSettled t (Inr responseMessage) alive) s) =
           AList.delete t (tasks s) @ [(nextTask s, RegisterResolve k d)]"
    and "deferreds (step (InvocationSettled t (Inr responseMessage) alive) s) = deferreds s"
  using assms by (simp_all add: registerThen_def)

lemma registerResolve_step:
  assumes "map_of (tasks s) t = Some (RegisterResolve k d)"
  shows "deferreds (step (CallbackRun t) s) d =
           (if deferreds s d = Pending then Resolved k else deferreds s d)"
    and "t' \<noteq> t \<Longrightarrow> map_of (tasks (step (CallbackRun t) s)) t' = map_of (tasks s) t'"
  using assms
  by (auto simp add: registerResolve_def resolve_def removeTask_def delete_conv
      split: promise.splits)

text \<open>
  C5, as amended: \<open>registerListener\<close> returns a pending promise after it has issued the
  register-request on every call-time connection that has no registration stored for the
  key; a successful answer stores the registration and schedules the resolve callback;
  and the resolve callback resolves the promise with the key if it is still pending,
  while every other task, the attempts that are still outstanding among them, stays as
  it is.
\<close>

theorem registerListener_resolves_on_first_success:
  "fst (registerListener codec' listenerHandlerFn activeConnections userKey this) =
     nextDeferred this \<and>
   deferreds (snd (registerListener codec' listenerHandlerFn activeConnections userKey this))
     (nextDeferred this) = Pending \<and>
   outstandingAttempts (nextDeferred this)
     (snd (registerListener codec' listenerHandlerFn activeConnections userKey this)) =
     outstandingAttempts (nextDeferred this) this @
     filter (\<lambda>c. \<not> has (storedFor userKey this) c) activeConnections \<and>
   filter isInvokeUrgent
     (issuedSince this
        (snd (registerListener codec' listenerHandlerFn activeConnections userKey this))) =
     map (\<lambda>c. InvokeUrgent (registerInvocation codec' listenerHandlerFn (isSmart this) c))
       (filter (\<lambda>c. \<not> has (storedFor userKey this) c) activeConnections) \<and>
   (map_of (tasks this1) t1 = Some (RegisterInvocation userKey1 m connection codec1 deferred1) \<and>
    newClientEventRegistration codec1 connection responseMessage = Inr eventRegistration \<longrightarrow>
      registrationMaps (step (InvocationSettled t1 (Inr responseMessage) isAlive) this1) m =
        AList.update connection eventRegistration (registrationMaps this1 m) \<and>
      tasks (step (InvocationSettled t1 (Inr responseMessage) isAlive) this1) =
        AList.delete t1 (tasks this1) @ [(nextTask this1, RegisterResolve userKey1 deferred1)] \<and>
      deferreds (step (InvocationSettled t1 (Inr responseMessage) isAlive) this1) =
        deferreds this1) \<and>
   (map_of (tasks this2) t2 = Some (RegisterResolve userKey2 deferred2) \<longrightarrow>
      deferreds (step (CallbackRun t2) this2) deferred2 =
        (if deferreds this2 deferred2 = Pending then Resolved userKey2
         else deferreds this2 deferred2) \<and>
      (\<forall>t'. t' \<noteq> t2 \<longrightarrow>
         map_of (tasks (step (CallbackRun t2) this2)) t' = map_of (tasks this2) t'))"
  using registerThen_success [of this1 t1 userKey1 m connection codec1 deferred1
      responseMessage eventRegistration isAlive]
    registerResolve_step [of this2 t2 userKey2 deferred2]
  by (simp add: registerListener_deferred outstandingAttempts_registerListener
      registerListener_invokeUrgent del: step.simps)

lemma registeringOnTwo_fields:
  "activeRegistrations registeringOnTwo = [(''k'', 0)]"
  "registrationMaps registeringOnTwo 0 = []"
  "tasks registeringOnTwo =
     [(0, RegisterInvocation ''k'' 0 1 exampleCodec 0),
      (1, RegisterInvocation ''k'' 0 2 exampleCodec 0)]"
  "nextTask registeringOnTwo = 2"
  "deferreds registeringOnTwo 0 = Pending"
  by (simp_all add: registeringOnTwo_def listener_defs Let_def)

lemma exampleResponse_registration [simp]:
  "newClientEventRegistration exampleCodec c (exampleResponse cid) = Inr (exampleRegistration c cid)"
  by (simp add: newClientEventRegistration_def getCorrelationId_def example_defs
      exampleRegistration_def)

lemma firstStored_fields:
  "activeRegistrations firstStored = [(''k'', 0)]"
  "map fst (userKeyInformation firstStored) = [''k'']"
  "registrationMaps firstStored 0 = [(1, exampleRegistration 1 10)]"
  "tasks firstStored =
     [(1, RegisterInvocation ''k'' 0 2 exampleCodec 0), (2, RegisterResolve ''k'' 0)]"
  "deferreds firstStored 0 = Pending"
  by (simp_all add: firstStored_def registeringOnTwo_def run_def constructor_def
      registerListener_def registerThen_def has_def Let_def isSmart_def)

lemma resolvedWithOutstanding_fields:
  "activeRegistrations resolvedWithOutstanding = [(''k'', 0)]"
  "map fst (userKeyInformation resolvedWithOutstanding) = [''k'']"
  "registrationMaps resolvedWithOutstanding 0 = [(1, exampleRegistration 1 10)]"
  "tasks resolvedWithOutstanding = [(1, RegisterInvocation ''k'' 0 2 exampleCodec 0)]"
  "deferreds resolvedWithOutstanding 0 = Resolved ''k''"
  by (simp_all add: resolvedWithOutstanding_def firstStored_fields registerResolve_def
      resolve_def)

theorem registerListener_resolves_on_first_success_witness:
  "map_of (tasks registeringOnTwo) 0 = Some (RegisterInvocation ''k'' 0 1 exampleCodec 0) \<and>
   newClientEventRegistration exampleCodec 1 (exampleResponse 10) =
     Inr (exampleRegistration 1 10) \<and>
   tasks (step (InvocationSettled 0 (Inr (exampleResponse 10)) True) registeringOnTwo) =
     [(1, RegisterInvocation ''k'' 0 2 exampleCodec 0), (2, RegisterResolve ''k'' 0)] \<and>
   map_of (tasks firstStored) 2 = Some (RegisterResolve ''k'' 0) \<and>
   deferreds (step (CallbackRun 2) firstStored) 0 = Resolved ''k'' \<and>
   map_of (tasks (step (CallbackRun 2) firstStored)) 1 =
     Some (RegisterInvocation ''k'' 0 2 exampleCodec 0) \<and>
   outstandingAttempts 0 (snd (registerListener exampleCodec 0 [1, 2] ''k'' (constructor True)))
     = [1, 2]"
  using registerListener_resolves_on_first_success [of exampleCodec 0 "[1, 2]" "''k''"
      "constructor True" registeringOnTwo 0 "''k''" 0 1 exampleCodec 0 "exampleResponse 10"
      "exampleRegistration 1 10" True firstStored 2 "''k''" 0]
  by (simp add: registeringOnTwo_fields firstStored_fields storedFor_def has_def
      constructor_def outstandingAttempts_def del: step.simps)

text \<open>
  C5, as stated, fails: after the first of two attempts has succeeded the promise is
  resolved while the attempt on connection 2 is still outstanding.
\<close>

theorem resolved_while_attempt_outstanding:
  "deferreds resolvedWithOutstanding 0 = Resolved ''k'' \<and>
   outstandingAttempts 0 resolvedWithOutstanding = [2] \<and>
   map_of (tasks resolvedWithOutstanding) 1 =
     Some (RegisterInvocation ''k'' 0 2 exampleCodec 0)"
  by (simp add: resolvedWithOutstanding_fields outstandingAttempts_def)







end
